theory Spec2Isabelle
  imports Main
begin

section \<open>Data model of the inventory service\<close>

text \<open>
  The documents of the two Mongo collections of the inventory service
  (\<open>inventory.model.ts\<close>, \<open>reservation.model.ts\<close>). Quantities are JavaScript numbers that
  the request schemas restrict to integers; they are modelled as unbounded integers, which
  is exact as long as every operand and result is a safe integer (at most
  \<open>max_safe_integer\<close> in absolute value); statements about arbitrary counters carry that
  bound. Document ids are natural numbers handed out by a counter, dates are milliseconds
  since the epoch. The deletion of expired reservation documents by the database's TTL
  index is not part of the model.
\<close>

datatype reservation_status = Pending | Confirmed | Released

record inventory_doc =
  inv_id :: nat
  productId :: string
  sku :: string
  available :: int
  reserved :: int
  total :: int
  reorderLevel :: int

record reservation_doc =
  res_id :: nat
  orderId :: string
  res_productId :: string
  quantity :: int
  status :: reservation_status
  expiresAt :: int

record domain_event =
  ev_type :: string
  ev_reservationId :: nat
  ev_orderId :: string
  ev_productId :: string
  ev_quantity :: int

text \<open>
  The state the handlers act on: both collections, the id counter, and the event bus
  (\<open>channel_ready\<close>: the channel is not null; \<open>write_ok\<close>: what \<open>channel.publish\<close> returns;
  \<open>sent\<close>: the events handed to the exchange).
\<close>

record state =
  inventory :: "inventory_doc list"
  reservations :: "reservation_doc list"
  next_id :: nat
  channel_ready :: bool
  write_ok :: bool
  sent :: "domain_event list"

definition max_safe_integer :: int where
  "max_safe_integer = 9007199254740991"

text \<open>The largest time value of a \<open>Date\<close>.\<close>

definition max_date :: int where
  "max_date = 8640000000000000"

text \<open>
  What a handler or a preHandler can throw: the two failures of \<open>publish\<close>, the
  duplicate-key error of a unique index, the \<open>TypeError\<close> of calling a missing method or
  reading a field of \<open>null\<close>, and the \<open>CastError\<close> of an id that is no ObjectId. A thrown
  error is answered 500.
\<close>

datatype thrown = ChannelNotInitialized | PublishRejected | DuplicateKey | TypeError | CastError

datatype reply =
    Created201 reservation_doc
  | ItemCreated201 inventory_doc
  | Ok200 inventory_doc
  | NoContent204
  | NotFound404
  | InsufficientStock400 int int
  | CannotRelease400
  | ValidationFailed400
  | Conflict409
  | Thrown thrown

text \<open>The ledger invariant of the specification, on one inventory document.\<close>

definition ledger_ok :: "inventory_doc \<Rightarrow> bool" where
  "ledger_ok d = (available d + reserved d = total d \<and> 0 \<le> available d \<and> 0 \<le> reserved d)"

section \<open>Repositories\<close>

text \<open>\<open>findOneAndUpdate\<close>: the first document that matches the filter is updated.\<close>

fun update_first :: "('a \<Rightarrow> bool) \<Rightarrow> ('a \<Rightarrow> 'a) \<Rightarrow> 'a list \<Rightarrow> 'a list" where
  "update_first P f [] = []"
| "update_first P f (x # xs) = (if P x then f x # xs else x # update_first P f xs)"

subsection \<open>InventoryRepository\<close>

definition findByProductId :: "string \<Rightarrow> inventory_doc list \<Rightarrow> inventory_doc option" where
  "findByProductId pid docs = find (\<lambda>d. productId d = pid) docs"

definition inv_findById :: "nat \<Rightarrow> inventory_doc list \<Rightarrow> inventory_doc option" where
  "inv_findById i docs = find (\<lambda>d. inv_id d = i) docs"

definition inv_updateById ::
  "nat \<Rightarrow> (inventory_doc \<Rightarrow> inventory_doc) \<Rightarrow> inventory_doc list \<Rightarrow> inventory_doc list" where
  "inv_updateById i f docs = update_first (\<lambda>d. inv_id d = i) f docs"

definition adjustStock :: "string \<Rightarrow> int \<Rightarrow> inventory_doc list \<Rightarrow> inventory_doc list" where
  "adjustStock pid q docs =
     update_first (\<lambda>d. productId d = pid)
       (\<lambda>d. d\<lparr>available := available d + q, total := total d + q\<rparr>) docs"

definition reserve :: "string \<Rightarrow> int \<Rightarrow> inventory_doc list \<Rightarrow> inventory_doc list" where
  "reserve pid q docs =
     update_first (\<lambda>d. productId d = pid \<and> q \<le> available d)
       (\<lambda>d. d\<lparr>available := available d - q, reserved := reserved d + q\<rparr>) docs"

definition release :: "string \<Rightarrow> int \<Rightarrow> inventory_doc list \<Rightarrow> inventory_doc list" where
  "release pid q docs =
     update_first (\<lambda>d. productId d = pid)
       (\<lambda>d. d\<lparr>available := available d + q, reserved := reserved d - q\<rparr>) docs"

definition confirm :: "string \<Rightarrow> int \<Rightarrow> inventory_doc list \<Rightarrow> inventory_doc list" where
  "confirm pid q docs =
     update_first (\<lambda>d. productId d = pid)
       (\<lambda>d. d\<lparr>reserved := reserved d - q, total := total d - q\<rparr>) docs"

subsection \<open>ReservationRepository\<close>

definition res_findById :: "nat \<Rightarrow> reservation_doc list \<Rightarrow> reservation_doc option" where
  "res_findById i rs = find (\<lambda>r. res_id r = i) rs"

definition res_updateById ::
  "nat \<Rightarrow> (reservation_doc \<Rightarrow> reservation_doc) \<Rightarrow> reservation_doc list \<Rightarrow> reservation_doc list" where
  "res_updateById i f rs = update_first (\<lambda>r. res_id r = i) f rs"

definition findByOrderId :: "string \<Rightarrow> reservation_doc list \<Rightarrow> reservation_doc list" where
  "findByOrderId oid rs = filter (\<lambda>r. orderId r = oid) rs"

definition findExpired :: "int \<Rightarrow> reservation_doc list \<Rightarrow> reservation_doc list" where
  "findExpired now rs = filter (\<lambda>r. status r = Pending \<and> expiresAt r < now) rs"

definition confirmReservation :: "nat \<Rightarrow> reservation_doc list \<Rightarrow> reservation_doc list" where
  "confirmReservation rid rs = update_first (\<lambda>r. res_id r = rid) (\<lambda>r. r\<lparr>status := Confirmed\<rparr>) rs"

definition releaseReservation :: "nat \<Rightarrow> reservation_doc list \<Rightarrow> reservation_doc list" where
  "releaseReservation rid rs = update_first (\<lambda>r. res_id r = rid) (\<lambda>r. r\<lparr>status := Released\<rparr>) rs"

section \<open>Event bus: publish\<close>

text \<open>
  \<open>RabbitEventBus.publish\<close>: throws when the channel is missing or when
  \<open>channel.publish\<close> returns false; the event id and timestamp are left out.
\<close>

definition publish :: "domain_event \<Rightarrow> state \<Rightarrow> thrown + state" where
  "publish ev s =
     (if \<not> channel_ready s then Inl ChannelNotInitialized
      else if \<not> write_ok s then Inl PublishRejected
      else Inr (s\<lparr>sent := sent s @ [ev]\<rparr>))"

section \<open>Routes of the inventory service\<close>

text \<open>The validated body of \<open>POST /reserve\<close>, and the time the handler reads.\<close>

record reserve_body =
  rb_orderId :: string
  rb_productId :: string
  rb_quantity :: int
  rb_expiresIn :: int

definition new_reservation :: "int \<Rightarrow> reserve_body \<Rightarrow> nat \<Rightarrow> reservation_doc" where
  "new_reservation now b i =
     \<lparr>res_id = i, orderId = rb_orderId b, res_productId = rb_productId b,
      quantity = rb_quantity b, status = Pending, expiresAt = now + rb_expiresIn b * 1000\<rparr>"

definition reserved_event :: "reservation_doc \<Rightarrow> domain_event" where
  "reserved_event r =
     \<lparr>ev_type = ''inventory.reserved'', ev_reservationId = res_id r, ev_orderId = orderId r,
      ev_productId = res_productId r, ev_quantity = quantity r\<rparr>"

definition released_event :: "reservation_doc \<Rightarrow> domain_event" where
  "released_event r =
     \<lparr>ev_type = ''inventory.released'', ev_reservationId = res_id r, ev_orderId = orderId r,
      ev_productId = res_productId r, ev_quantity = quantity r\<rparr>"

text \<open>
  \<open>POST /reserve\<close>: look the item up, refuse when the stock read is too small, create the
  reservation, write the new counters computed from the item that was read, publish.
\<close>

definition reserve_route :: "int \<Rightarrow> reserve_body \<Rightarrow> state \<Rightarrow> reply \<times> state" where
  "reserve_route now b s =
     (case findByProductId (rb_productId b) (inventory s) of
        None \<Rightarrow> (NotFound404, s)
      | Some item \<Rightarrow>
          if available item < rb_quantity b
          then (InsufficientStock400 (available item) (rb_quantity b), s)
          else
            let r = new_reservation now b (next_id s);
                s1 = s\<lparr>reservations := reservations s @ [r], next_id := Suc (next_id s)\<rparr>;
                s2 = s1\<lparr>inventory :=
                        inv_updateById (inv_id item)
                          (\<lambda>d. d\<lparr>available := available item - rb_quantity b,
                                 reserved := reserved item + rb_quantity b\<rparr>)
                          (inventory s1)\<rparr>
            in (case publish (reserved_event r) s2 of
                  Inl e \<Rightarrow> (Thrown e, s2)
                | Inr s3 \<Rightarrow> (Created201 r, s3)))"

subsection \<open>Route parameters\<close>

text \<open>
  A route parameter reaches the server as a string. \<open>validateParams\<close> calls
  \<open>schema.parse\<close> on the parameters: a zod schema either accepts them or raises a
  \<open>ZodError\<close>, which is answered 400 and ends the request. An argument that is not a
  schema has no \<open>parse\<close>: the call raises a \<open>TypeError\<close>, which is not a \<open>ZodError\<close> and is
  thrown again. \<open>requireAuth\<close> and \<open>requireRoles\<close> are taken as passed.
\<close>

datatype 'a params_schema = ZodSchema "string \<Rightarrow> 'a option" | NotASchema

definition validateParams :: "'a params_schema \<Rightarrow> string \<Rightarrow> reply + 'a" where
  "validateParams schema params =
     (case schema of
        ZodSchema parse \<Rightarrow>
          (case parse params of None \<Rightarrow> Inl ValidationFailed400 | Some v \<Rightarrow> Inr v)
      | NotASchema \<Rightarrow> Inl (Thrown TypeError))"

text \<open>
  \<open>idSchema\<close>: the id is a uuid, five groups of 8, 4, 4, 4 and 12 hexadecimal digits
  joined by hyphens (zod versions that also constrain the version digit accept fewer
  strings).
\<close>

definition is_hex :: "char \<Rightarrow> bool" where
  "is_hex c = (c \<in> set ''0123456789abcdefABCDEF'')"

definition is_uuid :: "string \<Rightarrow> bool" where
  "is_uuid u =
     (length u = 36 \<and>
      list_all is_hex (take 8 u) \<and> u ! 8 = CHR ''-'' \<and>
      list_all is_hex (take 4 (drop 9 u)) \<and> u ! 13 = CHR ''-'' \<and>
      list_all is_hex (take 4 (drop 14 u)) \<and> u ! 18 = CHR ''-'' \<and>
      list_all is_hex (take 4 (drop 19 u)) \<and> u ! 23 = CHR ''-'' \<and>
      list_all is_hex (drop 24 u))"

definition idSchema :: "string params_schema" where
  "idSchema = ZodSchema (\<lambda>u. if is_uuid u then Some u else None)"

text \<open>
  \<open>findById\<close> and \<open>findByIdAndUpdate\<close> cast the string to the \<open>ObjectId\<close> of the \<open>_id\<close>
  field: 24 hexadecimal digits, or a string of 12 bytes for the drivers that still take
  one; any other string is a \<open>CastError\<close>.
\<close>

definition hex_value :: "char \<Rightarrow> nat" where
  "hex_value c =
     (if c \<in> set ''0123456789'' then of_char c - 48
      else if c \<in> set ''abcdef'' then of_char c - 87
      else of_char c - 55)"

definition castObjectId :: "string \<Rightarrow> nat option" where
  "castObjectId u =
     (if length u = 24 \<and> list_all is_hex u
      then Some (foldl (\<lambda>n c. 16 * n + hex_value c) 0 u)
      else if length u = 12 then Some (foldl (\<lambda>n c. 256 * n + of_char c) 0 u)
      else None)"

subsection \<open>POST /release/:reservationId\<close>

text \<open>The handler, which reads the id from the request parameters.\<close>

definition release_handler :: "string \<Rightarrow> state \<Rightarrow> reply \<times> state" where
  "release_handler reservationId s =
     (case castObjectId reservationId of
        None \<Rightarrow> (Thrown CastError, s)
      | Some rid \<Rightarrow>
          (case res_findById rid (reservations s) of
             None \<Rightarrow> (NotFound404, s)
           | Some r \<Rightarrow>
               if status r \<noteq> Pending then (CannotRelease400, s)
               else
                 let s1 = s\<lparr>reservations :=
                             res_updateById rid (\<lambda>d. d\<lparr>status := Released\<rparr>) (reservations s)\<rparr>;
                     s2 = (case findByProductId (res_productId r) (inventory s1) of
                             None \<Rightarrow> s1
                           | Some item \<Rightarrow>
                               s1\<lparr>inventory :=
                                    inv_updateById (inv_id item)
                                      (\<lambda>d. d\<lparr>available := available item + quantity r,
                                             reserved := reserved item - quantity r\<rparr>)
                                      (inventory s1)\<rparr>)
                 in (case publish (released_event r) s2 of
                       Inl e \<Rightarrow> (Thrown e, s2)
                     | Inr s3 \<Rightarrow> (NoContent204, s3))))"

text \<open>
  The route registers \<open>validateParams({ reservationId: idSchema.shape.id })\<close>: the argument
  is a plain object, not a schema.
\<close>

definition release_route :: "string \<Rightarrow> state \<Rightarrow> reply \<times> state" where
  "release_route reservationId s =
     (case validateParams (NotASchema :: string params_schema) reservationId of
        Inl rep \<Rightarrow> (rep, s)
      | Inr v \<Rightarrow> release_handler reservationId s)"

subsection \<open>POST /inventory and PATCH /inventory/:id\<close>

text \<open>
  \<open>POST /inventory\<close> with the validated body (\<open>total\<close> and \<open>reorderLevel\<close> are integers
  that are at least 0). The handler checks the product id itself; the unique index on the
  sku makes \<open>save\<close> throw.
\<close>

definition create_route :: "string \<Rightarrow> string \<Rightarrow> int \<Rightarrow> int \<Rightarrow> state \<Rightarrow> reply \<times> state" where
  "create_route pid sk tot lvl s =
     (case findByProductId pid (inventory s) of
        Some existing \<Rightarrow> (Conflict409, s)
      | None \<Rightarrow>
          (case find (\<lambda>d. sku d = sk) (inventory s) of
             Some other \<Rightarrow> (Thrown DuplicateKey, s)
           | None \<Rightarrow>
               let item = \<lparr>inv_id = next_id s, productId = pid, sku = sk, available = tot,
                           reserved = 0, total = tot, reorderLevel = lvl\<rparr>
               in (ItemCreated201 item,
                   s\<lparr>inventory := inventory s @ [item], next_id := Suc (next_id s)\<rparr>)))"

text \<open>
  \<open>PATCH /inventory/:id\<close>. The body holds two optional integers;
  \<open>validateBody(updateInventorySchema)\<close> refuses a negative one. The handler takes the id
  that \<open>validateParams(idSchema)\<close> accepted. The update goes through
  \<open>findByIdAndUpdate\<close>, which does not run the schema validators.
\<close>

definition patch_handler :: "string \<Rightarrow> int option \<Rightarrow> int option \<Rightarrow> state \<Rightarrow> reply \<times> state" where
  "patch_handler ident new_total new_level s =
     (case castObjectId ident of
        None \<Rightarrow> (Thrown CastError, s)
      | Some i \<Rightarrow>
          (case inv_findById i (inventory s) of
             None \<Rightarrow> (NotFound404, s)
           | Some existingItem \<Rightarrow>
               let set_total = (\<lambda>d. case new_total of
                                     None \<Rightarrow> d
                                   | Some t \<Rightarrow>
                                       d\<lparr>total := t,
                                         available :=
                                           available existingItem + (t - total existingItem)\<rparr>);
                   set_level = (\<lambda>d. case new_level of
                                     None \<Rightarrow> d
                                   | Some l \<Rightarrow> d\<lparr>reorderLevel := l\<rparr>);
                   docs' = inv_updateById i (\<lambda>d. set_level (set_total d)) (inventory s)
               in (case inv_findById i docs' of
                     None \<Rightarrow> (Thrown TypeError, s\<lparr>inventory := docs'\<rparr>)
                   | Some updatedItem \<Rightarrow> (Ok200 updatedItem, s\<lparr>inventory := docs'\<rparr>))))"

definition updateInventorySchema :: "int option \<Rightarrow> int option \<Rightarrow> bool" where
  "updateInventorySchema new_total new_level =
     ((case new_total of None \<Rightarrow> True | Some t \<Rightarrow> 0 \<le> t) \<and>
      (case new_level of None \<Rightarrow> True | Some l \<Rightarrow> 0 \<le> l))"

definition patch_route :: "string \<Rightarrow> int option \<Rightarrow> int option \<Rightarrow> state \<Rightarrow> reply \<times> state" where
  "patch_route ident new_total new_level s =
     (case validateParams idSchema ident of
        Inl rep \<Rightarrow> (rep, s)
      | Inr valid_id \<Rightarrow>
          if updateInventorySchema new_total new_level
          then patch_handler valid_id new_total new_level s
          else (ValidationFailed400, s))"

section \<open>POST /reserve as a sequence of awaited operations\<close>

text \<open>
  The handler of \<open>POST /reserve\<close> awaits four operations on shared state in turn:
  \<open>findByProductId\<close>, \<open>reservationRepository.create\<close>, \<open>inventoryRepository.updateById\<close>
  and \<open>publish\<close>. Other handlers may run between two of them. The program counter keeps
  what the handler holds in local variables: the item it read and the reservation it made.
\<close>

datatype reserve_pc =
    AtFind
  | AtCreate inventory_doc
  | AtUpdate inventory_doc reservation_doc
  | AtPublish reservation_doc
  | Finished reply

fun reserve_step :: "int \<Rightarrow> reserve_body \<Rightarrow> reserve_pc \<Rightarrow> state \<Rightarrow> reserve_pc \<times> state" where
  "reserve_step now b AtFind s =
     (case findByProductId (rb_productId b) (inventory s) of
        None \<Rightarrow> (Finished NotFound404, s)
      | Some item \<Rightarrow>
          if available item < rb_quantity b
          then (Finished (InsufficientStock400 (available item) (rb_quantity b)), s)
          else (AtCreate item, s))"
| "reserve_step now b (AtCreate item) s =
     (let r = new_reservation now b (next_id s)
      in (AtUpdate item r,
          s\<lparr>reservations := reservations s @ [r], next_id := Suc (next_id s)\<rparr>))"
| "reserve_step now b (AtUpdate item r) s =
     (AtPublish r,
      s\<lparr>inventory :=
          inv_updateById (inv_id item)
            (\<lambda>d. d\<lparr>available := available item - rb_quantity b,
                   reserved := reserved item + rb_quantity b\<rparr>)
            (inventory s)\<rparr>)"
| "reserve_step now b (AtPublish r) s =
     (case publish (reserved_event r) s of
        Inl e \<Rightarrow> (Finished (Thrown e), s)
      | Inr s' \<Rightarrow> (Finished (Created201 r), s'))"
| "reserve_step now b (Finished rep) s = (Finished rep, s)"

text \<open>
  A schedule names, step by step, which of the running calls performs its next awaited
  operation. A call is the time it read, its body and its program counter.
\<close>

type_synonym reserve_call = "int \<times> reserve_body \<times> reserve_pc"

fun run_schedule :: "nat list \<Rightarrow> reserve_call list \<Rightarrow> state \<Rightarrow> reserve_call list \<times> state" where
  "run_schedule [] calls s = (calls, s)"
| "run_schedule (i # sched) calls s =
     (if i < length calls
      then (case calls ! i of
              (now, b, pc) \<Rightarrow>
                (case reserve_step now b pc s of
                   (pc', s') \<Rightarrow> run_schedule sched (calls[i := (now, b, pc')]) s'))
      else run_schedule sched calls s)"

definition granted :: "reserve_call list \<Rightarrow> int" where
  "granted calls =
     sum_list (map (\<lambda>c. case snd (snd c) of Finished (Created201 r) \<Rightarrow> quantity r | _ \<Rightarrow> 0) calls)"

section \<open>Event consumers and the expiry sweeper\<close>

datatype order_status =
  OrderCreated | OrderConfirmed | OrderShipped | OrderDelivered | OrderCancelled

text \<open>
  \<open>product.created\<close>: \<open>create\<close> saves a new document, which runs the schema validators
  (no negative counter) and the unique indexes; a failure is caught and logged. The
  reorder level \<open>Math.max(10, Math.floor(stock * 0.1))\<close> is written with integer division.
\<close>

definition on_product_created :: "string \<Rightarrow> string \<Rightarrow> int \<Rightarrow> state \<Rightarrow> state" where
  "on_product_created pid sk stock s =
     (if stock < 0 then s
      else case findByProductId pid (inventory s) of
             Some d \<Rightarrow> s
           | None \<Rightarrow>
               (case find (\<lambda>d. sku d = sk) (inventory s) of
                  Some d \<Rightarrow> s
                | None \<Rightarrow>
                    s\<lparr>inventory := inventory s @
                         [\<lparr>inv_id = next_id s, productId = pid, sku = sk, available = stock,
                           reserved = 0, total = stock, reorderLevel = max 10 (stock div 10)\<rparr>],
                      next_id := Suc (next_id s)\<rparr>))"

text \<open>\<open>order.created\<close>: every pending reservation of the order is confirmed.\<close>

definition on_order_created :: "string \<Rightarrow> state \<Rightarrow> state" where
  "on_order_created oid s =
     s\<lparr>reservations :=
         foldl (\<lambda>rs r. if status r = Pending then confirmReservation (res_id r) rs else rs)
           (reservations s) (findByOrderId oid (reservations s))\<rparr>"

text \<open>The body of both release loops: mark the reservation, credit the ledger.\<close>

definition release_one :: "reservation_doc \<Rightarrow> state \<Rightarrow> state" where
  "release_one r s =
     s\<lparr>reservations := releaseReservation (res_id r) (reservations s),
       inventory := release (res_productId r) (quantity r) (inventory s)\<rparr>"

text \<open>\<open>order.updated\<close>: a cancelled order releases its pending and confirmed reservations.\<close>

definition on_order_updated :: "string \<Rightarrow> order_status \<Rightarrow> state \<Rightarrow> state" where
  "on_order_updated oid currentStatus s =
     (if currentStatus = OrderCancelled
      then foldl (\<lambda>t r. if status r = Pending \<or> status r = Confirmed then release_one r t else t)
             s (findByOrderId oid (reservations s))
      else s)"

text \<open>
  The sweeper: \<open>findExpired\<close> selects, then the loop releases each selected reservation.
  The two parts are separate awaited operations, so the selection is a value of its own.
\<close>

definition sweep_selected :: "reservation_doc list \<Rightarrow> state \<Rightarrow> state" where
  "sweep_selected sel s = foldl (\<lambda>t r. release_one r t) s sel"

definition sweeper_tick :: "int \<Rightarrow> state \<Rightarrow> state" where
  "sweeper_tick now s = sweep_selected (findExpired now (reservations s)) s"

text \<open>The counters of the ledger entry of a product, as a triple.\<close>

definition ledger :: "string \<Rightarrow> state \<Rightarrow> (int \<times> int \<times> int) option" where
  "ledger pid s =
     map_option (\<lambda>d. (available d, reserved d, total d)) (findByProductId pid (inventory s))"

definition status_of :: "nat \<Rightarrow> state \<Rightarrow> reservation_status option" where
  "status_of rid s = map_option status (res_findById rid (reservations s))"

section \<open>Event bus: the consume callback of subscribe\<close>

text \<open>
  What the callback does on the channel for one delivery. \<open>parse\<close> is \<open>JSON.parse\<close> of
  the content (\<open>None\<close> when it throws); the handler runs on a state of its own and its
  promise either resolves or rejects. \<open>Nack allUpTo requeue\<close> carries both flags of
  \<open>channel.nack\<close>.
\<close>

datatype channel_action = Ack | Nack bool bool

datatype handler_result = Resolved | Rejected

definition consume_callback ::
  "('m \<Rightarrow> 'e option) \<Rightarrow> ('e \<Rightarrow> 'st \<Rightarrow> handler_result \<times> 'st) \<Rightarrow> 'm option \<Rightarrow> 'st
     \<Rightarrow> channel_action list \<times> 'st" where
  "consume_callback parse handler msg st =
     (case msg of
        None \<Rightarrow> ([], st)
      | Some m \<Rightarrow>
          (case parse m of
             None \<Rightarrow> ([Nack False False], st)
           | Some event \<Rightarrow>
               (case handler event st of
                  (Resolved, st') \<Rightarrow> ([Ack], st')
                | (Rejected, st') \<Rightarrow> ([Nack False False], st'))))"

text \<open>
  The queue as the broker keeps it: the messages ready for delivery and the delivered ones
  that are not settled yet. An acknowledged message is gone; a rejected one goes back to
  the head of the queue when \<open>requeue\<close> is set and is discarded otherwise (the queues of
  \<open>subscribe\<close> declare no dead-letter exchange).
\<close>

record 'm queue =
  ready :: "'m list"
  unacked :: "'m list"

fun settle :: "channel_action list \<Rightarrow> 'm \<Rightarrow> 'm queue \<Rightarrow> 'm queue" where
  "settle [] m q = q\<lparr>unacked := m # unacked q\<rparr>"
| "settle (Ack # as) m q = q"
| "settle (Nack allUpTo requeue # as) m q = (if requeue then q\<lparr>ready := m # ready q\<rparr> else q)"

definition deliver ::
  "('m \<Rightarrow> 'e option) \<Rightarrow> ('e \<Rightarrow> 'st \<Rightarrow> handler_result \<times> 'st) \<Rightarrow> 'm queue \<Rightarrow> 'st
     \<Rightarrow> 'm queue \<times> 'st" where
  "deliver parse handler q st =
     (case ready q of
        [] \<Rightarrow> (q, st)
      | m # rest \<Rightarrow>
          (case consume_callback parse handler (Some m) st of
             (acts, st') \<Rightarrow> (settle acts m (q\<lparr>ready := rest\<rparr>), st')))"

section \<open>The push-stream (SSE) manager of the gateway\<close>

datatype sse_data = Timestamp int | Payload string

record sse_message =
  msg_id :: "string option"
  msg_event :: string
  msg_data :: sse_data

text \<open>
  A client of the manager. \<open>write_throws\<close> says whether \<open>reply.raw.write\<close> throws for this
  connection. The manager keeps its clients in a \<open>Map\<close>, modelled as the list of its
  values in insertion order, and \<open>written\<close> collects the messages written, with the client
  they were written to.
\<close>

record sse_client =
  client_id :: string
  userId :: string
  subscriptions :: "string set"
  lastPing :: int
  write_throws :: bool

record sse_manager =
  clients :: "sse_client list"
  written :: "(string \<times> sse_message) list"

definition map_set :: "sse_client \<Rightarrow> sse_client list \<Rightarrow> sse_client list" where
  "map_set c cs =
     (case find (\<lambda>x. client_id x = client_id c) cs of
        None \<Rightarrow> cs @ [c]
      | Some old \<Rightarrow> update_first (\<lambda>x. client_id x = client_id c) (\<lambda>x. c) cs)"

definition removeClient :: "string \<Rightarrow> sse_manager \<Rightarrow> sse_manager" where
  "removeClient cid m = m\<lparr>clients := filter (\<lambda>c. client_id c \<noteq> cid) (clients m)\<rparr>"

definition sendToClient :: "string \<Rightarrow> sse_message \<Rightarrow> sse_manager \<Rightarrow> sse_manager" where
  "sendToClient cid msg m =
     (case find (\<lambda>c. client_id c = cid) (clients m) of
        None \<Rightarrow> m
      | Some client \<Rightarrow>
          if write_throws client then removeClient cid m
          else m\<lparr>written := written m @ [(cid, msg)]\<rparr>)"

definition addClient :: "int \<Rightarrow> sse_client \<Rightarrow> sse_manager \<Rightarrow> sse_manager" where
  "addClient now client m =
     sendToClient (client_id client)
       \<lparr>msg_id = None, msg_event = ''connected'', msg_data = Timestamp now\<rparr>
       (m\<lparr>clients := map_set client (clients m)\<rparr>)"

definition sendToUser :: "string \<Rightarrow> sse_message \<Rightarrow> sse_manager \<Rightarrow> sse_manager" where
  "sendToUser uid msg m =
     foldl (\<lambda>t client. if userId client = uid then sendToClient (client_id client) msg t else t)
       m (clients m)"

definition broadcastToSubscribers :: "string \<Rightarrow> sse_message \<Rightarrow> sse_manager \<Rightarrow> sse_manager" where
  "broadcastToSubscribers eventType msg m =
     foldl (\<lambda>t client.
              if eventType \<in> subscriptions client \<or> ''*'' \<in> subscriptions client
              then sendToClient (client_id client) msg t else t)
       m (clients m)"

definition subscribeClient :: "string \<Rightarrow> string list \<Rightarrow> sse_manager \<Rightarrow> sse_manager" where
  "subscribeClient cid eventTypes m =
     m\<lparr>clients :=
         update_first (\<lambda>c. client_id c = cid)
           (\<lambda>c. c\<lparr>subscriptions := subscriptions c \<union> set eventTypes\<rparr>) (clients m)\<rparr>"

definition unsubscribeClient :: "string \<Rightarrow> string list \<Rightarrow> sse_manager \<Rightarrow> sse_manager" where
  "unsubscribeClient cid eventTypes m =
     m\<lparr>clients :=
         update_first (\<lambda>c. client_id c = cid)
           (\<lambda>c. c\<lparr>subscriptions := subscriptions c - set eventTypes\<rparr>) (clients m)\<rparr>"

definition staleThreshold :: int where
  "staleThreshold = 60000"

definition pingClients :: "int \<Rightarrow> sse_manager \<Rightarrow> sse_manager" where
  "pingClients now m =
     foldl (\<lambda>t client.
              if now - lastPing client > staleThreshold then removeClient (client_id client) t
              else sendToClient (client_id client)
                     \<lparr>msg_id = None, msg_event = ''ping'', msg_data = Timestamp now\<rparr> t)
       m (clients m)"

text \<open>
  The constructor starts \<open>setInterval\<close> with a period of 30000 ms: the sweeps of a manager
  built at \<open>t0\<close> run at \<open>t0 + 30000\<close>, \<open>t0 + 60000\<close>, and so on.
\<close>

definition tick_time :: "int \<Rightarrow> nat \<Rightarrow> int" where
  "tick_time t0 k = t0 + 30000 * int k"

text \<open>Decimal digits of a number, for the client ids built from \<open>Date.now()\<close>.\<close>

fun dec :: "nat \<Rightarrow> string" where
  "dec n = (if n < 10 then [char_of (48 + n)] else dec (n div 10) @ [char_of (48 + n mod 10)])"

declare dec.simps [simp del]

text \<open>
  The clients the two endpoints create: \<open>/sse/notifications\<close> for the user of the request
  and \<open>/sse/orders/:userId\<close> (after its access check).
\<close>

definition notifications_client :: "string \<Rightarrow> int \<Rightarrow> bool \<Rightarrow> sse_client" where
  "notifications_client uid now wt =
     \<lparr>client_id = uid @ ''-'' @ dec (nat now), userId = uid,
      subscriptions = {''notification.*'', ''user.'' @ uid @ ''.*''},
      lastPing = now, write_throws = wt\<rparr>"

definition orders_client :: "string \<Rightarrow> string \<Rightarrow> int \<Rightarrow> bool \<Rightarrow> sse_client" where
  "orders_client uid param now wt =
     \<lparr>client_id = ''orders-'' @ param @ ''-'' @ dec (nat now), userId = uid,
      subscriptions = {''order.*''}, lastPing = now, write_throws = wt\<rparr>"

text \<open>
  The handler of the broadcaster's subscription. Of the event's data only the \<open>userId\<close>
  field, when there is one, decides anything.
\<close>

record bus_event =
  be_id :: string
  be_type :: string
  be_data :: string
  be_userId :: "string option"

definition startsWith :: "string \<Rightarrow> string \<Rightarrow> bool" where
  "startsWith t p = (take (length p) t = p)"

definition sse_on_event :: "bus_event \<Rightarrow> sse_manager \<Rightarrow> sse_manager" where
  "sse_on_event event m =
     (let message = \<lparr>msg_id = Some (be_id event), msg_event = be_type event,
                     msg_data = Payload (be_data event)\<rparr>;
          m1 = broadcastToSubscribers (be_type event) message m;
          m2 = (if startsWith (be_type event) ''user.''
                then (case be_userId event of None \<Rightarrow> m1 | Some u \<Rightarrow> sendToUser u message m1)
                else m1)
      in if startsWith (be_type event) ''order.''
         then (case be_userId event of None \<Rightarrow> m2 | Some u \<Rightarrow> sendToUser u message m2)
         else m2)"

text \<open>Everything that can happen to a manager, and a run of such operations.\<close>

datatype sse_op =
    OpAdd int sse_client
  | OpRemove string
  | OpSend string sse_message
  | OpSendUser string sse_message
  | OpBroadcast string sse_message
  | OpSubscribe string "string list"
  | OpUnsubscribe string "string list"
  | OpEvent bus_event
  | OpPing int

fun apply_op :: "sse_op \<Rightarrow> sse_manager \<Rightarrow> sse_manager" where
  "apply_op (OpAdd now c) m = addClient now c m"
| "apply_op (OpRemove cid) m = removeClient cid m"
| "apply_op (OpSend cid msg) m = sendToClient cid msg m"
| "apply_op (OpSendUser uid msg) m = sendToUser uid msg m"
| "apply_op (OpBroadcast t msg) m = broadcastToSubscribers t msg m"
| "apply_op (OpSubscribe cid ts) m = subscribeClient cid ts m"
| "apply_op (OpUnsubscribe cid ts) m = unsubscribeClient cid ts m"
| "apply_op (OpEvent ev) m = sse_on_event ev m"
| "apply_op (OpPing now) m = pingClients now m"

definition run_ops :: "sse_op list \<Rightarrow> sse_manager \<Rightarrow> sse_manager" where
  "run_ops ops m = foldl (\<lambda>t op. apply_op op t) m ops"

fun adds_client :: "string \<Rightarrow> sse_op \<Rightarrow> bool" where
  "adds_client cid (OpAdd now c) = (client_id c = cid)"
| "adds_client cid other = False"

text \<open>The ids of the connected clients, each with the \<open>lastPing\<close> the manager holds for it.\<close>

definition pings :: "sse_manager \<Rightarrow> (string \<times> int) set" where
  "pings m = (\<lambda>x. (client_id x, lastPing x)) ` set (clients m)"

definition connected :: "string \<Rightarrow> sse_manager \<Rightarrow> bool" where
  "connected cid m = (cid \<in> fst ` pings m)"

section \<open>Scenarios\<close>

text \<open>
  A service with an open channel and empty collections; the same service after
  \<open>POST /inventory\<close> has created the entry of product \<open>p1\<close> with a given total; two
  reserve bodies for that product.
\<close>

definition fresh_service :: state where
  "fresh_service =
     \<lparr>inventory = [], reservations = [], next_id = 0, channel_ready = True, write_ok = True,
      sent = []\<rparr>"

definition stocked :: "int \<Rightarrow> state" where
  "stocked n = snd (create_route ''p1'' ''sku-1'' n 10 fresh_service)"

definition body_A :: "int \<Rightarrow> reserve_body" where
  "body_A ttl = \<lparr>rb_orderId = ''orderA'', rb_productId = ''p1'', rb_quantity = 10, rb_expiresIn = ttl\<rparr>"

definition body_B :: "int \<Rightarrow> reserve_body" where
  "body_B ttl = \<lparr>rb_orderId = ''orderB'', rb_productId = ''p1'', rb_quantity = 10, rb_expiresIn = ttl\<rparr>"

definition reserved_A :: "int \<Rightarrow> int \<Rightarrow> state" where
  "reserved_A n ttl = snd (reserve_route 0 (body_A ttl) (stocked n))"

text \<open>
  The same states with a broker whose channel refuses the write, and with a bus whose
  channel is missing.
\<close>

definition backpressure :: "state \<Rightarrow> state" where
  "backpressure s = s\<lparr>write_ok := False\<rparr>"

definition no_channel :: "state \<Rightarrow> state" where
  "no_channel s = s\<lparr>channel_ready := False\<rparr>"

text \<open>
  The entry with 10 available after two reserve calls of 10 (ttl 60 s) whose awaited
  operations alternate, and the state after the order of the first scenario was cancelled.
\<close>

definition oversold :: state where
  "oversold =
     snd (run_schedule [0, 1, 0, 1, 0, 1, 0, 1]
            [(0, body_A 60, AtFind), (5, body_B 60, AtFind)] (stocked 10))"


text \<open>
  A handler that resolves on the event \<open>ok\<close> and rejects on any other, with no state of
  its own.
\<close>

definition sample_handler :: "string \<Rightarrow> unit \<Rightarrow> handler_result \<times> unit" where
  "sample_handler ev u = (if ev = ''ok'' then Resolved else Rejected, u)"

text \<open>
  A manager with one client: user \<open>u1\<close> connected to \<open>/sse/notifications\<close> at time 1000
  on a healthy connection.
\<close>

definition alice :: sse_client where
  "alice = notifications_client ''u1'' 1000 False"

definition alice_connected :: sse_manager where
  "alice_connected = addClient 1000 alice \<lparr>clients = [], written = []\<rparr>"

definition notification_created :: bus_event where
  "notification_created =
     \<lparr>be_id = ''e1'', be_type = ''notification.created'', be_data = ''{}'', be_userId = None\<rparr>"

definition user_updated :: bus_event where
  "user_updated =
     \<lparr>be_id = ''e2'', be_type = ''user.updated'', be_data = ''{}'', be_userId = Some ''u1''\<rparr>"

section \<open>Facts about the repositories and the routes\<close>

lemmas repo_defs =
  findByProductId_def inv_findById_def inv_updateById_def adjustStock_def reserve_def
  release_def confirm_def res_findById_def res_updateById_def findByOrderId_def findExpired_def
  confirmReservation_def releaseReservation_def publish_def new_reservation_def
  reserved_event_def released_event_def

lemma stocked_eval:
  "stocked n =
     \<lparr>inventory = [\<lparr>inv_id = 0, productId = ''p1'', sku = ''sku-1'', available = n,
                     reserved = 0, total = n, reorderLevel = 10\<rparr>],
      reservations = [], next_id = 1, channel_ready = True, write_ok = True, sent = []\<rparr>"
  by (simp add: stocked_def fresh_service_def create_route_def findByProductId_def Let_def)

lemma reserved_A_eval:
  "10 \<le> n \<Longrightarrow>
   reserved_A n ttl =
     \<lparr>inventory = [\<lparr>inv_id = 0, productId = ''p1'', sku = ''sku-1'', available = n - 10,
                     reserved = 10, total = n, reorderLevel = 10\<rparr>],
      reservations = [\<lparr>res_id = 1, orderId = ''orderA'', res_productId = ''p1'', quantity = 10,
                        status = Pending, expiresAt = ttl * 1000\<rparr>],
      next_id = 2, channel_ready = True, write_ok = True,
      sent = [\<lparr>ev_type = ''inventory.reserved'', ev_reservationId = 1, ev_orderId = ''orderA'',
                ev_productId = ''p1'', ev_quantity = 10\<rparr>]\<rparr>"
  unfolding reserved_A_def stocked_eval
  by (simp add: reserve_route_def body_A_def repo_defs Let_def)

text \<open>
  A call that runs alone performs its four operations one after the other, and that is
  the route as written.
\<close>

lemma run_schedule_alone:
  "run_schedule [0, 0, 0, 0] [(now, b, AtFind)] s =
     ([(now, b, Finished (fst (reserve_route now b s)))], snd (reserve_route now b s))"
  by (simp add: reserve_route_def Let_def split: option.splits sum.splits)

lemma oversold_eval:
  "oversold =
     \<lparr>inventory = [\<lparr>inv_id = 0, productId = ''p1'', sku = ''sku-1'', available = 0,
                     reserved = 10, total = 10, reorderLevel = 10\<rparr>],
      reservations = [\<lparr>res_id = 1, orderId = ''orderA'', res_productId = ''p1'', quantity = 10,
                        status = Pending, expiresAt = 60000\<rparr>,
                      \<lparr>res_id = 2, orderId = ''orderB'', res_productId = ''p1'', quantity = 10,
                        status = Pending, expiresAt = 60005\<rparr>],
      next_id = 3, channel_ready = True, write_ok = True,
      sent = [\<lparr>ev_type = ''inventory.reserved'', ev_reservationId = 1, ev_orderId = ''orderA'',
                ev_productId = ''p1'', ev_quantity = 10\<rparr>,
              \<lparr>ev_type = ''inventory.reserved'', ev_reservationId = 2, ev_orderId = ''orderB'',
                ev_productId = ''p1'', ev_quantity = 10\<rparr>]\<rparr>"
  unfolding oversold_def stocked_eval
  by (simp add: body_A_def body_B_def repo_defs Let_def)


text \<open>
  Both routes with an id parameter stop before their handler: the parameter check of the
  release route throws on every request, and no string is both a uuid and an ObjectId.
\<close>

lemma uuid_not_object_id: "is_uuid u \<Longrightarrow> castObjectId u = None"
  by (simp add: is_uuid_def castObjectId_def)

lemma patch_route_never_updates:
  "snd (patch_route ident new_total new_level s) = s \<and>
   (fst (patch_route ident new_total new_level s) = ValidationFailed400 \<or>
    fst (patch_route ident new_total new_level s) = Thrown CastError)"
  by (simp add: patch_route_def validateParams_def idSchema_def patch_handler_def
      uuid_not_object_id)

lemma release_route_throws: "release_route reservationId s = (Thrown TypeError, s)"
  by (simp add: release_route_def validateParams_def)






section \<open>Facts about the SSE manager\<close>

text \<open>
  No operation of the manager writes \<open>lastPing\<close>: whatever runs, a client that is still
  connected has the value it was added with.
\<close>

lemma map_update_first:
  "(\<And>x. g (f x) = g x) \<Longrightarrow> map g (update_first P f xs) = map g xs"
  by (induction xs) simp_all

lemma set_update_first_const:
  "set (update_first P (\<lambda>x. c) xs) \<subseteq> insert c (set xs)"
  by (induction xs) auto

lemma pings_removeClient: "pings (removeClient cid m) \<subseteq> pings m"
  by (auto simp: pings_def removeClient_def)

lemma removeClient_gone: "cid \<notin> fst ` pings (removeClient cid m)"
  by (auto simp: pings_def removeClient_def)

lemma pings_sendToClient: "pings (sendToClient cid msg m) \<subseteq> pings m"
  using pings_removeClient[of cid m]
  by (auto simp: sendToClient_def pings_def split: option.splits)

lemma pings_foldl:
  "(\<And>t c. pings (f t c) \<subseteq> pings t) \<Longrightarrow> pings (foldl f m cs) \<subseteq> pings m"
proof (induction cs arbitrary: m)
  case Nil
  show ?case by simp
next
  case (Cons c cs)
  have "pings (foldl f (f m c) cs) \<subseteq> pings (f m c)"
    by (rule Cons.IH) (rule Cons.prems)
  also have "\<dots> \<subseteq> pings m" by (rule Cons.prems)
  finally show ?case by simp
qed

lemma pings_sendToUser: "pings (sendToUser uid msg m) \<subseteq> pings m"
  unfolding sendToUser_def by (rule pings_foldl) (simp add: pings_sendToClient)

lemma pings_broadcast: "pings (broadcastToSubscribers t msg m) \<subseteq> pings m"
  unfolding broadcastToSubscribers_def by (rule pings_foldl) (simp add: pings_sendToClient)

lemma pings_pingClients: "pings (pingClients now m) \<subseteq> pings m"
  unfolding pingClients_def
  by (rule pings_foldl) (simp add: pings_sendToClient pings_removeClient)

lemma pings_subscribe: "pings (subscribeClient cid ts m) = pings m"
proof -
  have "map (\<lambda>x. (client_id x, lastPing x)) (clients (subscribeClient cid ts m)) =
        map (\<lambda>x. (client_id x, lastPing x)) (clients m)"
    by (simp add: subscribeClient_def map_update_first)
  then show ?thesis unfolding pings_def by (metis set_map)
qed

lemma pings_unsubscribe: "pings (unsubscribeClient cid ts m) = pings m"
proof -
  have "map (\<lambda>x. (client_id x, lastPing x)) (clients (unsubscribeClient cid ts m)) =
        map (\<lambda>x. (client_id x, lastPing x)) (clients m)"
    by (simp add: unsubscribeClient_def map_update_first)
  then show ?thesis unfolding pings_def by (metis set_map)
qed

lemma pings_sse_on_event: "pings (sse_on_event ev m) \<subseteq> pings m"
proof -
  let ?msg = "\<lparr>msg_id = Some (be_id ev), msg_event = be_type ev, msg_data = Payload (be_data ev)\<rparr>"
  define m1 where "m1 = broadcastToSubscribers (be_type ev) ?msg m"
  define m2 where "m2 = (if startsWith (be_type ev) ''user.''
                         then (case be_userId ev of None \<Rightarrow> m1 | Some u \<Rightarrow> sendToUser u ?msg m1)
                         else m1)"
  have eq: "sse_on_event ev m =
              (if startsWith (be_type ev) ''order.''
               then (case be_userId ev of None \<Rightarrow> m2 | Some u \<Rightarrow> sendToUser u ?msg m2)
               else m2)"
    unfolding sse_on_event_def m2_def m1_def Let_def by (rule refl)
  have a: "pings m1 \<subseteq> pings m"
    unfolding m1_def by (rule pings_broadcast)
  have b: "pings m2 \<subseteq> pings m1"
    unfolding m2_def by (simp add: pings_sendToUser split: option.splits)
  have c: "pings (sse_on_event ev m) \<subseteq> pings m2"
    unfolding eq by (simp add: pings_sendToUser split: option.splits)
  from a b c show ?thesis by blast
qed

lemma pings_addClient:
  "pings (addClient now c m) \<subseteq> insert (client_id c, lastPing c) (pings m)"
proof -
  have "set (map_set c (clients m)) \<subseteq> insert c (set (clients m))"
    using set_update_first_const[of "\<lambda>x. client_id x = client_id c" c "clients m"]
    by (auto simp: map_set_def split: option.splits)
  then have "pings (m\<lparr>clients := map_set c (clients m)\<rparr>) \<subseteq> insert (client_id c, lastPing c) (pings m)"
    by (auto simp: pings_def)
  with pings_sendToClient show ?thesis
    unfolding addClient_def by blast
qed

lemma pings_apply_op:
  "\<not> adds_client cid op \<Longrightarrow> (cid, p) \<in> pings (apply_op op m) \<Longrightarrow> (cid, p) \<in> pings m"
proof (cases op)
  case (OpAdd now c)
  assume "\<not> adds_client cid op" and "(cid, p) \<in> pings (apply_op op m)"
  with OpAdd pings_addClient[of now c m] show ?thesis by auto
next
  case (OpRemove x)
  assume "(cid, p) \<in> pings (apply_op op m)"
  with OpRemove pings_removeClient show ?thesis by auto
next
  case (OpSend x msg)
  assume "(cid, p) \<in> pings (apply_op op m)"
  with OpSend pings_sendToClient show ?thesis by auto
next
  case (OpSendUser x msg)
  assume "(cid, p) \<in> pings (apply_op op m)"
  with OpSendUser pings_sendToUser show ?thesis by auto
next
  case (OpBroadcast x msg)
  assume "(cid, p) \<in> pings (apply_op op m)"
  with OpBroadcast pings_broadcast show ?thesis by auto
next
  case (OpSubscribe x ts)
  assume "(cid, p) \<in> pings (apply_op op m)"
  with OpSubscribe show ?thesis by (simp add: pings_subscribe)
next
  case (OpUnsubscribe x ts)
  assume "(cid, p) \<in> pings (apply_op op m)"
  with OpUnsubscribe show ?thesis by (simp add: pings_unsubscribe)
next
  case (OpEvent ev)
  assume "(cid, p) \<in> pings (apply_op op m)"
  with OpEvent pings_sse_on_event show ?thesis by auto
next
  case (OpPing now)
  assume "(cid, p) \<in> pings (apply_op op m)"
  with OpPing pings_pingClients show ?thesis by auto
qed

lemma pings_run_ops:
  "\<forall>op\<in>set ops. \<not> adds_client cid op \<Longrightarrow> (cid, p) \<in> pings (run_ops ops m) \<Longrightarrow>
   (cid, p) \<in> pings m"
proof (induction ops arbitrary: m)
  case Nil
  then show ?case by (simp add: run_ops_def)
next
  case (Cons op ops)
  from Cons.prems have "(cid, p) \<in> pings (run_ops ops (apply_op op m))"
    by (simp add: run_ops_def)
  with Cons have "(cid, p) \<in> pings (apply_op op m)" by simp
  with Cons.prems show ?case by (auto dest: pings_apply_op)
qed

lemma ping_fold_removes:
  assumes "x \<in> set cs" and "now - lastPing x > staleThreshold"
  shows "client_id x \<notin> fst ` pings
           (foldl (\<lambda>t client.
                     if now - lastPing client > staleThreshold then removeClient (client_id client) t
                     else sendToClient (client_id client)
                            \<lparr>msg_id = None, msg_event = ''ping'', msg_data = Timestamp now\<rparr> t)
              m cs)"
  using assms
proof (induction cs arbitrary: m)
  case Nil
  then show ?case by simp
next
  case (Cons c cs)
  let ?step = "\<lambda>t client.
                 if now - lastPing client > staleThreshold then removeClient (client_id client) t
                 else sendToClient (client_id client)
                        \<lparr>msg_id = None, msg_event = ''ping'', msg_data = Timestamp now\<rparr> t"
  show ?case
  proof (cases "x = c")
    case True
    have shrink: "pings (foldl ?step (removeClient (client_id x) m) cs) \<subseteq>
                  pings (removeClient (client_id x) m)"
      by (rule pings_foldl) (simp add: pings_sendToClient pings_removeClient)
    have "client_id x \<notin> fst ` pings (removeClient (client_id x) m)"
      by (rule removeClient_gone)
    with shrink have "client_id x \<notin> fst ` pings (foldl ?step (removeClient (client_id x) m) cs)"
      by blast
    with True Cons.prems(2) show ?thesis by simp
  next
    case False
    with Cons.prems have "x \<in> set cs" by simp
    from Cons.IH[OF this Cons.prems(2)] show ?thesis by simp
  qed
qed

lemma tick_due:
  assumes "t0 \<le> c"
  shows "\<exists>k. 0 < k \<and> c + staleThreshold < tick_time t0 k \<and> tick_time t0 k \<le> c + 90000"
proof -
  define d where "d = c + 60000 - t0"
  define q where "q = d div 30000"
  define r where "r = d mod 30000"
  have "0 \<le> d" using assms by (simp add: d_def)
  then have q: "0 \<le> q" by (simp add: q_def)
  have r: "0 \<le> r" "r < 30000" by (simp_all add: r_def)
  have d: "d = 30000 * q + r" by (simp add: q_def r_def)
  have "tick_time t0 (nat q + 1) = t0 + 30000 * (q + 1)"
    using q by (simp add: tick_time_def)
  with r d have "0 < nat q + 1 \<and> c + staleThreshold < tick_time t0 (nat q + 1) \<and>
                 tick_time t0 (nat q + 1) \<le> c + 90000"
    unfolding staleThreshold_def d_def by (simp add: algebra_simps)
  then show ?thesis by (rule exI)
qed


section \<open>The claims\<close>

text \<open>
  C1. The claim: the stock check and the ledger update of a Reserve are one atomic
  conditional operation, so concurrent Reserve calls never grant more than was available.
  The route reads the item, checks the value it read and later writes counters computed
  from that value. With 10 available and two calls of 10 whose operations alternate, both
  calls are answered 201, 20 are granted and the ledger says 10 reserved. The repository's
  own \<open>reserve\<close>, which the route does not call, is the conditional update: its second
  application on the same entry changes nothing.
\<close>

theorem reserve_route_check_then_write_oversells:
  "(case run_schedule [0, 1, 0, 1, 0, 1, 0, 1]
           [(0, body_A 1800, AtFind), (5, body_B 1800, AtFind)] (stocked 10) of
      (calls, s) \<Rightarrow>
        ledger ''p1'' (stocked 10) = Some (10, 0, 10) \<and>
        granted calls = 20 \<and>
        map quantity (reservations s) = [10, 10] \<and>
        ledger ''p1'' s = Some (0, 10, 10) \<and>
        reserve ''p1'' 10 (reserve ''p1'' 10 (inventory (stocked 10))) =
          reserve ''p1'' 10 (inventory (stocked 10)))"
  unfolding stocked_eval
  by (simp add: body_A_def body_B_def repo_defs Let_def granted_def ledger_def)

text \<open>
  C2. The claim: after every operation each ledger entry has available + reserved = total
  with neither counter negative. After the two interleaved reserve calls of C1 the entry is
  0/10/10 with two pending reservations of 10; the sweeper, or the cancellation of both
  orders, then releases both and leaves available = 20, reserved = -10, total = 10.
\<close>

theorem oversell_then_release_breaks_invariant:
  "ledger ''p1'' oversold = Some (0, 10, 10) \<and>
   map status (reservations oversold) = [Pending, Pending] \<and>
   map res_id (findExpired 61000 (reservations oversold)) = [1, 2] \<and>
   ledger ''p1'' (sweeper_tick 61000 oversold) = Some (20, - 10, 10) \<and>
   ledger ''p1''
     (on_order_updated ''orderB'' OrderCancelled
        (on_order_updated ''orderA'' OrderCancelled oversold)) = Some (20, - 10, 10) \<and>
   \<not> ledger_ok \<lparr>inv_id = 0, productId = ''p1'', sku = ''sku-1'', available = 20,
                 reserved = - 10, total = 10, reorderLevel = 10\<rparr> \<and>
   inventory (sweeper_tick 61000 oversold) =
     [\<lparr>inv_id = 0, productId = ''p1'', sku = ''sku-1'', available = 20,
       reserved = - 10, total = 10, reorderLevel = 10\<rparr>]"
  by (simp add: oversold_eval sweeper_tick_def sweep_selected_def on_order_updated_def
      release_one_def repo_defs ledger_def ledger_ok_def)

text \<open>
  C3. The claim: Confirm, run when the order's completion event arrives, marks the
  reservation confirmed and takes its quantity out of reserved and total, so that
  100/0/100 becomes 90/0/90 after Reserve 10 and Confirm. The handler of the event only
  marks the reservation: the ledger stays at 90/10/100. The repository's \<open>confirm\<close>, which
  nothing calls, would bring the counters to 90/0/90.
\<close>

theorem order_created_confirm_leaves_ledger:
  "ledger ''p1'' (stocked 100) = Some (100, 0, 100) \<and>
   ledger ''p1'' (reserved_A 100 1800) = Some (90, 10, 100) \<and>
   status_of 1 (reserved_A 100 1800) = Some Pending \<and>
   status_of 1 (on_order_created ''orderA'' (reserved_A 100 1800)) = Some Confirmed \<and>
   ledger ''p1'' (on_order_created ''orderA'' (reserved_A 100 1800)) = Some (90, 10, 100) \<and>
   map (\<lambda>d. (available d, reserved d, total d))
     (confirm ''p1'' 10 (inventory (reserved_A 100 1800))) = [(90, 0, 90)]"
  by (simp add: reserved_A_eval stocked_eval on_order_created_def repo_defs ledger_def
      status_of_def)

text \<open>
  C4. The claim: a reservation that is no longer pending when the sweeper's release runs
  keeps its status and the ledger is not credited. A reservation of 10 with a ttl of 60 s
  is selected by the sweeper at 61 s, the order's event confirms it before the loop
  reaches it, and the loop then marks it released and credits the ledger.
\<close>

theorem sweeper_releases_confirmed_reservation:
  "map res_id (findExpired 61000 (reservations (reserved_A 100 60))) = [1] \<and>
   status_of 1 (on_order_created ''orderA'' (reserved_A 100 60)) = Some Confirmed \<and>
   ledger ''p1'' (on_order_created ''orderA'' (reserved_A 100 60)) = Some (90, 10, 100) \<and>
   status_of 1
     (sweep_selected (findExpired 61000 (reservations (reserved_A 100 60)))
        (on_order_created ''orderA'' (reserved_A 100 60))) = Some Released \<and>
   ledger ''p1''
     (sweep_selected (findExpired 61000 (reservations (reserved_A 100 60)))
        (on_order_created ''orderA'' (reserved_A 100 60))) = Some (100, 0, 100)"
  by (simp add: reserved_A_eval on_order_created_def sweep_selected_def release_one_def
      repo_defs ledger_def status_of_def)




text \<open>
  C6. The claim: Reserve followed by Release of the reservation it created restores
  available and reserved. After Reserve 10 on 100/0/100 the ledger is 90/10/100;
  \<open>POST /release\<close> for the new reservation throws in its parameter check, the handler does
  not run and the ledger stays 90/10/100. The handler itself, and the cancellation of the
  order, would bring it back to 100/0/100.
\<close>

theorem release_route_does_not_restore:
  "ledger ''p1'' (stocked 100) = Some (100, 0, 100) \<and>
   ledger ''p1'' (reserved_A 100 1800) = Some (90, 10, 100) \<and>
   status_of 1 (reserved_A 100 1800) = Some Pending \<and>
   castObjectId ''000000000000000000000001'' = Some 1 \<and>
   release_route ''000000000000000000000001'' (reserved_A 100 1800) =
     (Thrown TypeError, reserved_A 100 1800) \<and>
   fst (release_handler ''000000000000000000000001'' (reserved_A 100 1800)) = NoContent204 \<and>
   ledger ''p1'' (snd (release_handler ''000000000000000000000001'' (reserved_A 100 1800))) =
     Some (100, 0, 100) \<and>
   ledger ''p1'' (on_order_updated ''orderA'' OrderCancelled (reserved_A 100 1800)) =
     Some (100, 0, 100)"
  by (simp add: stocked_eval reserved_A_eval status_of_def ledger_def repo_defs castObjectId_def
      is_hex_def hex_value_def release_route_def validateParams_def release_handler_def
      on_order_updated_def release_one_def Let_def)

text \<open>
  C7 (as stated). The claim: when the publish fails, the operation fails and the ledger
  entry and the reservation are as before. With a channel that refuses the write, the
  reserve throws, the ledger has moved from 100/0/100 to 90/10/100 and the pending
  reservation exists.
\<close>

theorem reserve_publish_failure_not_rolled_back:
  "fst (reserve_route 0 (body_A 1800) (backpressure (stocked 100))) = Thrown PublishRejected \<and>
   ledger ''p1'' (backpressure (stocked 100)) = Some (100, 0, 100) \<and>
   ledger ''p1'' (snd (reserve_route 0 (body_A 1800) (backpressure (stocked 100)))) =
     Some (90, 10, 100) \<and>
   status_of 1 (backpressure (stocked 100)) = None \<and>
   status_of 1 (snd (reserve_route 0 (body_A 1800) (backpressure (stocked 100)))) = Some Pending"
  by (simp add: backpressure_def stocked_eval reserve_route_def body_A_def repo_defs ledger_def
      status_of_def Let_def)

text \<open>
  C7 (amended). When the publish of a Reserve fails, because the channel is missing or
  because it refuses the write, the Reserve fails as a whole: the error is thrown to the
  caller. The writes made before the publish stay: the reservation created and the
  counters moved. The request is a validated body on an entry with enough stock, with
  counters and dates in the range where the arithmetic is exact.
\<close>

theorem reserve_publish_failure_keeps_writes:
  assumes "findByProductId (rb_productId b) (inventory s) = Some item"
    and "1 \<le> rb_quantity b" and "rb_quantity b \<le> available item"
    and "available item \<le> max_safe_integer"
    and "0 \<le> reserved item" and "reserved item + rb_quantity b \<le> max_safe_integer"
    and "60 \<le> rb_expiresIn b" and "rb_expiresIn b \<le> 3600"
    and "0 \<le> now" and "now + rb_expiresIn b * 1000 \<le> max_date"
    and "\<not> channel_ready s \<or> \<not> write_ok s"
  shows "reserve_route now b s =
      (Thrown (if channel_ready s then PublishRejected else ChannelNotInitialized),
       s\<lparr>reservations := reservations s @ [new_reservation now b (next_id s)],
         next_id := Suc (next_id s),
         inventory := inv_updateById (inv_id item)
                        (\<lambda>d. d\<lparr>available := available item - rb_quantity b,
                               reserved := reserved item + rb_quantity b\<rparr>) (inventory s)\<rparr>)"
  using assms by (auto simp: reserve_route_def publish_def Let_def)

theorem reserve_publish_failure_keeps_writes_witness:
  "fst (reserve_route 0 (body_A 1800) (backpressure (stocked 100))) = Thrown PublishRejected \<and>
   ledger ''p1'' (snd (reserve_route 0 (body_A 1800) (backpressure (stocked 100)))) =
     Some (90, 10, 100) \<and>
   fst (reserve_route 0 (body_A 1800) (no_channel (stocked 100))) = Thrown ChannelNotInitialized \<and>
   ledger ''p1'' (snd (reserve_route 0 (body_A 1800) (no_channel (stocked 100)))) =
     Some (90, 10, 100) \<and>
   map res_id (reservations (snd (reserve_route 0 (body_A 1800) (no_channel (stocked 100))))) = [1]"
proof -
  let ?item = "\<lparr>inv_id = 0, productId = ''p1'', sku = ''sku-1'', available = 100,
                reserved = 0, total = 100, reorderLevel = 10\<rparr>"
  have f1: "findByProductId (rb_productId (body_A 1800)) (inventory (backpressure (stocked 100))) =
              Some ?item"
    and f2: "findByProductId (rb_productId (body_A 1800)) (inventory (no_channel (stocked 100))) =
              Some ?item"
    by (simp_all add: backpressure_def no_channel_def stocked_eval body_A_def findByProductId_def)
  have q: "1 \<le> rb_quantity (body_A 1800)" "rb_quantity (body_A 1800) \<le> available ?item"
    "available ?item \<le> max_safe_integer" "0 \<le> reserved ?item"
    "reserved ?item + rb_quantity (body_A 1800) \<le> max_safe_integer"
    "60 \<le> rb_expiresIn (body_A 1800)" "rb_expiresIn (body_A 1800) \<le> 3600"
    "(0::int) \<le> 0" "0 + rb_expiresIn (body_A 1800) * 1000 \<le> max_date"
    by (simp_all add: body_A_def max_safe_integer_def max_date_def)
  have d1: "\<not> channel_ready (backpressure (stocked 100)) \<or> \<not> write_ok (backpressure (stocked 100))"
    and d2: "\<not> channel_ready (no_channel (stocked 100)) \<or> \<not> write_ok (no_channel (stocked 100))"
    by (simp_all add: backpressure_def no_channel_def)
  have r1: "reserve_route 0 (body_A 1800) (backpressure (stocked 100)) =
      (Thrown (if channel_ready (backpressure (stocked 100)) then PublishRejected
               else ChannelNotInitialized),
       (backpressure (stocked 100))
         \<lparr>reservations := reservations (backpressure (stocked 100)) @
             [new_reservation 0 (body_A 1800) (next_id (backpressure (stocked 100)))],
          next_id := Suc (next_id (backpressure (stocked 100))),
          inventory := inv_updateById (inv_id ?item)
                         (\<lambda>d. d\<lparr>available := available ?item - rb_quantity (body_A 1800),
                                reserved := reserved ?item + rb_quantity (body_A 1800)\<rparr>)
                         (inventory (backpressure (stocked 100)))\<rparr>)"
    by (rule reserve_publish_failure_keeps_writes[OF f1 q d1])
  have r2: "reserve_route 0 (body_A 1800) (no_channel (stocked 100)) =
      (Thrown (if channel_ready (no_channel (stocked 100)) then PublishRejected
               else ChannelNotInitialized),
       (no_channel (stocked 100))
         \<lparr>reservations := reservations (no_channel (stocked 100)) @
             [new_reservation 0 (body_A 1800) (next_id (no_channel (stocked 100)))],
          next_id := Suc (next_id (no_channel (stocked 100))),
          inventory := inv_updateById (inv_id ?item)
                         (\<lambda>d. d\<lparr>available := available ?item - rb_quantity (body_A 1800),
                                reserved := reserved ?item + rb_quantity (body_A 1800)\<rparr>)
                         (inventory (no_channel (stocked 100)))\<rparr>)"
    by (rule reserve_publish_failure_keeps_writes[OF f2 q d2])
  show ?thesis
    unfolding r1 r2
    by (simp add: backpressure_def no_channel_def stocked_eval body_A_def repo_defs ledger_def)
qed

text \<open>
  C8. For a delivered message whose content parses: when the handler resolves, the
  callback acknowledges the message; when the handler rejects, the callback rejects the
  message without requeue. In both cases the broker no longer holds the message: it is
  neither ready for redelivery nor waiting for a settlement.
\<close>

theorem consume_callback_ack_or_drop:
  assumes "parse m = Some ev"
  shows "(fst (handler ev st) = Resolved \<longrightarrow>
            fst (consume_callback parse handler (Some m) st) = [Ack] \<and>
            fst (deliver parse handler \<lparr>ready = m # rest, unacked = u\<rparr> st) =
              \<lparr>ready = rest, unacked = u\<rparr>)
       \<and> (fst (handler ev st) = Rejected \<longrightarrow>
            fst (consume_callback parse handler (Some m) st) = [Nack False False] \<and>
            fst (deliver parse handler \<lparr>ready = m # rest, unacked = u\<rparr> st) =
              \<lparr>ready = rest, unacked = u\<rparr>)"
  using assms
  by (auto simp: consume_callback_def deliver_def split: prod.splits handler_result.splits)

theorem consume_callback_ack_or_drop_witness:
  "fst (consume_callback Some sample_handler (Some ''ok'') ()) = [Ack] \<and>
   fst (deliver Some sample_handler \<lparr>ready = [''ok'', ''next''], unacked = []\<rparr> ()) =
     \<lparr>ready = [''next''], unacked = []\<rparr> \<and>
   fst (consume_callback Some sample_handler (Some ''bad'') ()) = [Nack False False] \<and>
   fst (deliver Some sample_handler \<lparr>ready = [''bad'', ''next''], unacked = []\<rparr> ()) =
     \<lparr>ready = [''next''], unacked = []\<rparr>"
proof -
  have ok: "fst (sample_handler ''ok'' ()) = Resolved"
    and bad: "fst (sample_handler ''bad'' ()) = Rejected"
    by (simp_all add: sample_handler_def)
  have p: "Some ''ok'' = Some ''ok''" and q: "Some ''bad'' = Some ''bad''"
    by simp_all
  from consume_callback_ack_or_drop[of Some "''ok''" "''ok''" sample_handler "()" "[''next'']" "[]",
        OF p, THEN conjunct1, rule_format, OF ok]
       consume_callback_ack_or_drop[of Some "''bad''" "''bad''" sample_handler "()" "[''next'']" "[]",
        OF q, THEN conjunct2, rule_format, OF bad]
  show ?thesis by blast
qed

text \<open>
  C9. The claim: an event reaches every live connection whose subscription set holds the
  event's topic or a wildcard pattern that matches it. The client that
  \<open>/sse/notifications\<close> creates is subscribed to \<open>notification.*\<close>; the event
  \<open>notification.created\<close> is written to nobody, because the manager compares the topic
  with the patterns for equality and knows only the pattern \<open>*\<close>. An event that carries
  the user's id under \<open>user.\<close> does reach the client, through \<open>sendToUser\<close>.
\<close>

theorem broadcast_ignores_segment_wildcards:
  "''notification.*'' \<in> subscriptions alice \<and>
   connected (client_id alice) alice_connected \<and>
   sse_on_event notification_created alice_connected = alice_connected \<and>
   written (sse_on_event user_updated alice_connected) =
     written alice_connected @
       [(client_id alice,
         \<lparr>msg_id = Some ''e2'', msg_event = ''user.updated'', msg_data = Payload ''{}''\<rparr>)]"
  by (simp add: sse_on_event_def alice_connected_def alice_def notification_created_def
      user_updated_def addClient_def notifications_client_def map_set_def sendToClient_def
      sendToUser_def broadcastToSubscribers_def startsWith_def connected_def pings_def Let_def)

text \<open>
  C10. A client's \<open>lastPing\<close> is the time it was added and nothing changes it: after any
  run of operations that does not add the client again (messages, broadcasts, events,
  subscriptions, earlier sweeps), a sweep later than 60 s after the connection removes
  the client, and for a client that connects after the manager was built such a sweep is
  due no later than 90 s after the connection.
\<close>

theorem sse_client_evicted_after_silence_window:
  assumes noadd: "\<forall>op\<in>set ops. \<not> adds_client cid op"
    and since: "\<forall>p. (cid, p) \<in> pings m \<longrightarrow> p = c"
    and start: "t0 \<le> c"
  shows "(\<forall>p. (cid, p) \<in> pings (run_ops ops m) \<longrightarrow> p = c) \<and>
         (\<forall>now. now - c > staleThreshold \<longrightarrow> \<not> connected cid (pingClients now (run_ops ops m))) \<and>
         (\<exists>k. 0 < k \<and> tick_time t0 k \<le> c + 90000 \<and>
              \<not> connected cid (pingClients (tick_time t0 k) (run_ops ops m)))"
proof -
  let ?m = "run_ops ops m"
  have same: "\<forall>p. (cid, p) \<in> pings ?m \<longrightarrow> p = c"
    using pings_run_ops[OF noadd] since by blast
  have gone: "\<not> connected cid (pingClients now ?m)" if stale: "now - c > staleThreshold" for now
  proof
    assume "connected cid (pingClients now ?m)"
    then obtain p where in_after: "(cid, p) \<in> pings (pingClients now ?m)"
      by (auto simp: connected_def)
    with pings_pingClients have "(cid, p) \<in> pings ?m" by blast
    then obtain x where x: "x \<in> set (clients ?m)" "client_id x = cid" "lastPing x = p"
      by (auto simp: pings_def)
    with same \<open>(cid, p) \<in> pings ?m\<close> have "lastPing x = c" by blast
    with stale have "now - lastPing x > staleThreshold" by simp
    from ping_fold_removes[OF x(1) this, of ?m]
    have "cid \<notin> fst ` pings (pingClients now ?m)"
      by (simp add: pingClients_def x(2))
    with in_after show False by force
  qed
  from tick_due[OF start] obtain k where
    k: "0 < k" "c + staleThreshold < tick_time t0 k" "tick_time t0 k \<le> c + 90000" by blast
  then have "\<not> connected cid (pingClients (tick_time t0 k) ?m)"
    by (intro gone) simp
  with k(1) k(3) have due:
    "0 < k \<and> tick_time t0 k \<le> c + 90000 \<and>
     \<not> connected cid (pingClients (tick_time t0 k) ?m)"
    by simp
  have late: "\<forall>now. now - c > staleThreshold \<longrightarrow> \<not> connected cid (pingClients now ?m)"
    using gone by simp
  from due have "\<exists>k. 0 < k \<and> tick_time t0 k \<le> c + 90000 \<and>
                     \<not> connected cid (pingClients (tick_time t0 k) ?m)"
    by (rule exI)
  with same late show ?thesis by simp
qed


theorem sse_client_evicted_after_silence_window_witness:
  "connected (client_id alice)
     (run_ops [OpEvent user_updated, OpPing 30000, OpPing 60000] alice_connected) \<and>
   written (run_ops [OpEvent user_updated, OpPing 30000, OpPing 60000] alice_connected) \<noteq>
     written alice_connected \<and>
   \<not> connected (client_id alice)
       (pingClients 90000
          (run_ops [OpEvent user_updated, OpPing 30000, OpPing 60000] alice_connected))"
proof -
  let ?ops = "[OpEvent user_updated, OpPing 30000, OpPing 60000]"
  have a: "\<forall>op\<in>set ?ops. \<not> adds_client (client_id alice) op"
    by simp
  have b: "\<forall>p. (client_id alice, p) \<in> pings alice_connected \<longrightarrow> p = 1000"
    by (simp add: alice_connected_def alice_def addClient_def notifications_client_def
        map_set_def sendToClient_def pings_def)
  have c: "(0::int) \<le> 1000"
    by simp
  have live: "connected (client_id alice) (run_ops ?ops alice_connected) \<and>
              written (run_ops ?ops alice_connected) \<noteq> written alice_connected"
    by (simp add: run_ops_def sse_on_event_def pingClients_def staleThreshold_def
        alice_connected_def alice_def user_updated_def addClient_def notifications_client_def
        map_set_def sendToClient_def sendToUser_def broadcastToSubscribers_def startsWith_def
        connected_def pings_def Let_def)
  from sse_client_evicted_after_silence_window[OF a b c]
  have "\<not> connected (client_id alice) (pingClients 90000 (run_ops ?ops alice_connected))"
    by (simp add: staleThreshold_def)
  with live show ?thesis by blast
qed

end
